theory Spec2Isabelle
  imports Complex_Main
begin

section \<open>The global data cache of the portfolio site (hooks/useGlobalData.js)\<close>

text \<open>
  The module holds one React provider component, \<^verbatim>\<open>GlobalDataProvider\<close>, and two hooks,
  \<^verbatim>\<open>useGlobalData\<close> and \<^verbatim>\<open>useSectionData\<close>. The provider owns six state cells and one
  effect; the effect either uses the cached aggregate or runs the asynchronous function
  \<^verbatim>\<open>fetchGlobalData\<close>. The embedding keeps the state cells as a record, passes the
  state explicitly, and returns next to the new state the record of the statements
  executed (setter calls, calls of the logger, image preloader, data service and
  performance tracker, timestamp readings), in the order the code executes them.
\<close>

subsection \<open>JavaScript values\<close>

text \<open>
  Section values are what a JSON document can hold, plus \<^verbatim>\<open>undefined\<close> and the built-in
  functions a property read can reach. Numbers are the integers (JSON has no NaN). An
  object is the list of its own enumerable properties in the order \<^verbatim>\<open>Object.keys\<close>
  enumerates them. \<open>JFunction name\<close> is the built-in function of that name.
\<close>

datatype jsval =
    JUndefined
  | JNull
  | JBool bool
  | JNum int
  | JStr string
  | JArr "jsval list"
  | JObj "(string \<times> jsval) list"
  | JFunction string

text \<open>The aggregate the data service resolves with: an object keyed by section name.\<close>

type_synonym aggregate = "(string \<times> jsval) list"

text \<open>JavaScript's ToBoolean: what \<^verbatim>\<open>!x\<close>, \<^verbatim>\<open>if (x)\<close> and \<^verbatim>\<open>x || y\<close> test.\<close>

fun truthy :: "jsval \<Rightarrow> bool" where
  "truthy JUndefined = False"
| "truthy JNull = False"
| "truthy (JBool b) = b"
| "truthy (JNum n) = (n \<noteq> 0)"
| "truthy (JStr s) = (s \<noteq> [])"
| "truthy (JArr xs) = True"
| "truthy (JObj kvs) = True"
| "truthy (JFunction f) = True"

text \<open>\<^verbatim>\<open>Object.keys(data)\<close>\<close>

definition Object_keys :: "aggregate \<Rightarrow> string list" where
  "Object_keys d = map fst d"

text \<open>
  The aggregate is an ordinary object (parsed JSON, or an object literal), so a property
  it does not own is looked up in \<^verbatim>\<open>Object.prototype\<close>. These are the properties of
  \<^verbatim>\<open>Object.prototype\<close>, as a property read sees them: eleven functions, and the
  accessor \<^verbatim>\<open>__proto__\<close>, whose getter yields \<^verbatim>\<open>Object.prototype\<close> itself, an object
  with no enumerable property. None of them is enumerable, so \<^verbatim>\<open>Object.keys\<close> lists
  none.
\<close>

definition Object_prototype :: "(string \<times> jsval) list" where
  "Object_prototype =
     [(''constructor'', JFunction ''Object''),
      (''__defineGetter__'', JFunction ''__defineGetter__''),
      (''__defineSetter__'', JFunction ''__defineSetter__''),
      (''hasOwnProperty'', JFunction ''hasOwnProperty''),
      (''__lookupGetter__'', JFunction ''__lookupGetter__''),
      (''__lookupSetter__'', JFunction ''__lookupSetter__''),
      (''isPrototypeOf'', JFunction ''isPrototypeOf''),
      (''propertyIsEnumerable'', JFunction ''propertyIsEnumerable''),
      (''toString'', JFunction ''toString''),
      (''valueOf'', JFunction ''valueOf''),
      (''__proto__'', JObj []),
      (''toLocaleString'', JFunction ''toLocaleString'')]"

text \<open>
  \<^verbatim>\<open>data?.[sectionName]\<close>: \<^verbatim>\<open>undefined\<close> when \<^verbatim>\<open>data\<close> is null (optional chaining);
  otherwise the value of the object's own property of that name, failing that the
  inherited property of that name, and \<^verbatim>\<open>undefined\<close> when there is neither.
\<close>

definition optional_get :: "aggregate option \<Rightarrow> string \<Rightarrow> jsval" where
  "optional_get data sectionName =
     (case data of
        None \<Rightarrow> JUndefined
      | Some d \<Rightarrow>
          (case map_of d sectionName of
             Some v \<Rightarrow> v
           | None \<Rightarrow>
               (case map_of Object_prototype sectionName of
                  Some inherited \<Rightarrow> inherited
                | None \<Rightarrow> JUndefined)))"

text \<open>\<^verbatim>\<open>x || null\<close>\<close>

definition or_null :: "jsval \<Rightarrow> jsval" where
  "or_null x = (if truthy x then x else JNull)"

subsection \<open>The provider's state\<close>

text \<open>
  The six \<^verbatim>\<open>useState\<close> cells of \<^verbatim>\<open>GlobalDataProvider\<close>. \<open>None\<close> is \<^verbatim>\<open>null\<close>.
  Timestamps are \<^verbatim>\<open>Date.now()\<close> values: integral milliseconds since the epoch.
\<close>

record CacheState =
  globalData :: "aggregate option"
  loading :: bool
  error :: "string option"
  lastFetch :: int
  isInitialLoad :: bool
  showProgress :: bool

definition initial_state :: CacheState where
  "initial_state =
     \<lparr>globalData = None, loading = True, error = None, lastFetch = 0,
      isInitialLoad = True, showProgress = True\<rparr>"

definition CACHE_DURATION :: int where
  "CACHE_DURATION = 30 * 60 * 1000"

subsection \<open>The statements a run executes\<close>

text \<open>
  A run of the effect is recorded statement by statement, in the order the code executes
  them: each call of a state setter, each call of a collaborator (logger, image
  preloader, data service, performance tracker) and each reading of
  \<^verbatim>\<open>performance.now()\<close>. The collaborators are imported modules; a call to one is
  recorded, not executed, and is taken to return normally. \<^verbatim>\<open>Date.now()\<close> is read
  inside expressions only, and its reading is an argument of the function that uses it.

  \<^verbatim>\<open>fetchTime = endTime - startTime\<close> is a subtraction of two doubles; it is kept as its
  two operands, \<open>Elapsed endTime startTime\<close>, and not computed.
\<close>

datatype elapsed = Elapsed real real

datatype log_message =
    Fetching_global_portfolio_data
  | Global_data_loaded_in elapsed
  | Using_cached_global_data

datatype effect =
    LoggerData log_message
  | LoggerError string
  | PerformanceNow
  | PreloadCriticalImages
  | GetPortfolioDataOptimized string
  | TrackDataFetch string elapsed
  | PreloadDataImages aggregate
  | PreloadSectionImages string
  | SetGlobalData "aggregate option"
  | SetLoading bool
  | SetError "string option"
  | SetLastFetch int
  | SetIsInitialLoad bool

text \<open>What a recorded statement does to the state: a setter writes its cell.\<close>

fun apply_setter :: "effect \<Rightarrow> CacheState \<Rightarrow> CacheState" where
  "apply_setter (SetGlobalData d) st = st\<lparr>globalData := d\<rparr>"
| "apply_setter (SetLoading b) st = st\<lparr>loading := b\<rparr>"
| "apply_setter (SetError e) st = st\<lparr>error := e\<rparr>"
| "apply_setter (SetLastFetch t) st = st\<lparr>lastFetch := t\<rparr>"
| "apply_setter (SetIsInitialLoad b) st = st\<lparr>isInitialLoad := b\<rparr>"
| "apply_setter other st = st"

fun apply_setters :: "effect list \<Rightarrow> CacheState \<Rightarrow> CacheState" where
  "apply_setters [] st = st"
| "apply_setters (e # es) st = apply_setters es (apply_setter e st)"

text \<open>\<open>occurs_before x y xs\<close>: the first \<open>x\<close> of the record \<open>xs\<close> is followed by a \<open>y\<close>.\<close>

fun occurs_before :: "effect \<Rightarrow> effect \<Rightarrow> effect list \<Rightarrow> bool" where
  "occurs_before x y [] = False"
| "occurs_before x y (z # zs) = (if z = x then y \<in> set zs else occurs_before x y zs)"

text \<open>
  How the awaited promise settles: resolved with the aggregate (or with \<^verbatim>\<open>null\<close>), or
  rejected with an error whose \<^verbatim>\<open>message\<close> is the given string.
\<close>

datatype fetch_result = Resolved "aggregate option" | Rejected string

subsection \<open>fetchGlobalData\<close>

text \<open>
  The part of \<^verbatim>\<open>fetchGlobalData\<close> that runs synchronously, up to the \<^verbatim>\<open>await\<close>:
  \<^verbatim>\<open>setLoading(true); setError(null)\<close>, the log line, the reading of \<^verbatim>\<open>startTime\<close>,
  the critical preload and the call of the data service for locale \<^verbatim>\<open>'en'\<close>.
\<close>

definition fetchGlobalData_start :: "CacheState \<Rightarrow> CacheState \<times> effect list" where
  "fetchGlobalData_start st =
     (st\<lparr>loading := True, error := None\<rparr>,
      [SetLoading True,
       SetError None,
       LoggerData Fetching_global_portfolio_data,
       PerformanceNow,
       PreloadCriticalImages,
       GetPortfolioDataOptimized ''en''])"

text \<open>
  The \<^verbatim>\<open>forEach\<close> over \<^verbatim>\<open>Object.keys(data)\<close> with its test
  \<^verbatim>\<open>section !== 'home' && section !== 'contact'\<close>.
\<close>

fun preloadSections :: "string list \<Rightarrow> effect list" where
  "preloadSections [] = []"
| "preloadSections (section # rest) =
     (if section \<noteq> ''home'' \<and> section \<noteq> ''contact''
      then PreloadSectionImages section # preloadSections rest
      else preloadSections rest)"

text \<open>
  The rest of \<^verbatim>\<open>fetchGlobalData\<close>, run when the promise settles. \<open>startTime\<close> and
  \<open>endTime\<close> are the two \<^verbatim>\<open>performance.now()\<close> readings, \<open>now\<close> is \<^verbatim>\<open>Date.now()\<close>.
  The first equation is the rest of the \<^verbatim>\<open>try\<close> block, the second the \<^verbatim>\<open>catch\<close>
  block; both end with the \<^verbatim>\<open>finally\<close> block's \<^verbatim>\<open>setLoading(false)\<close>.
\<close>

fun fetchGlobalData_resume ::
  "real \<Rightarrow> real \<Rightarrow> fetch_result \<Rightarrow> int \<Rightarrow> CacheState \<Rightarrow> CacheState \<times> effect list" where
  "fetchGlobalData_resume startTime endTime (Resolved data) now st =
     (let fetchTime = Elapsed endTime startTime in
      (st\<lparr>globalData := data, lastFetch := now, isInitialLoad := False, loading := False\<rparr>,
       [PerformanceNow,
        LoggerData (Global_data_loaded_in fetchTime),
        TrackDataFetch ''global_portfolio_data'' fetchTime,
        SetGlobalData data,
        SetLastFetch now]
       @ (case data of
            None \<Rightarrow> []
          | Some d \<Rightarrow> PreloadDataImages d # preloadSections (Object_keys d))
       @ [SetIsInitialLoad False,
          SetLoading False]))"
| "fetchGlobalData_resume startTime endTime (Rejected message) now st =
     (st\<lparr>error := Some message, isInitialLoad := False, loading := False\<rparr>,
      [LoggerError message,
       SetError (Some message),
       SetIsInitialLoad False,
       SetLoading False])"

text \<open>One whole fetch sequence with nothing else happening in between.\<close>

definition fetchGlobalData ::
  "real \<Rightarrow> real \<Rightarrow> fetch_result \<Rightarrow> int \<Rightarrow> CacheState \<Rightarrow> CacheState \<times> effect list" where
  "fetchGlobalData startTime endTime result now st =
     (let (st1, calls1) = fetchGlobalData_start st;
          (st2, calls2) = fetchGlobalData_resume startTime endTime result now st1
      in (st2, calls1 @ calls2))"

subsection \<open>The effect: the staleness evaluation\<close>

text \<open>
  \<^verbatim>\<open>const shouldFetch = !globalData || (Date.now() - lastFetch) > CACHE_DURATION\<close>.
  The cached aggregate is \<^verbatim>\<open>null\<close> or an object, and every object is truthy.
\<close>

definition shouldFetch :: "int \<Rightarrow> CacheState \<Rightarrow> bool" where
  "shouldFetch now st = (globalData st = None \<or> now - lastFetch st > CACHE_DURATION)"

text \<open>
  The body of the \<^verbatim>\<open>useEffect\<close> callback, up to the first suspension: either the
  synchronous part of \<^verbatim>\<open>fetchGlobalData\<close>, or the cached branch.
\<close>

definition useEffect_body :: "int \<Rightarrow> CacheState \<Rightarrow> CacheState \<times> effect list" where
  "useEffect_body now st =
     (if shouldFetch now st then fetchGlobalData_start st
      else (st\<lparr>loading := False, isInitialLoad := False\<rparr>,
            [LoggerData Using_cached_global_data,
             SetLoading False,
             SetIsInitialLoad False]))"

subsection \<open>The context value and the two hooks\<close>

text \<open>
  The object handed to \<^verbatim>\<open>GlobalDataContext.Provider\<close>. \<^verbatim>\<open>refetch\<close> is a function
  that calls \<^verbatim>\<open>setLastFetch(0)\<close>: a state transformer.
\<close>

record context_value =
  data :: "aggregate option"
  ctx_loading :: bool
  ctx_error :: "string option"
  ctx_lastFetch :: int
  ctx_isInitialLoad :: bool
  refetch :: "CacheState \<Rightarrow> CacheState"

definition provider_value :: "CacheState \<Rightarrow> context_value" where
  "provider_value st =
     \<lparr>data = globalData st, ctx_loading = loading st, ctx_error = error st,
      ctx_lastFetch = lastFetch st, ctx_isInitialLoad = isInitialLoad st,
      refetch = (\<lambda>s. s\<lparr>lastFetch := 0\<rparr>)\<rparr>"

text \<open>\<^verbatim>\<open>handleProgressComplete\<close>\<close>

definition handleProgressComplete :: "CacheState \<Rightarrow> CacheState" where
  "handleProgressComplete st = st\<lparr>showProgress := False\<rparr>"

text \<open>
  What the provider renders: the progress indicator during the first load, the context
  provider around its children otherwise.
\<close>

datatype rendering = LoadingProgress | Provider context_value

definition GlobalDataProvider :: "CacheState \<Rightarrow> rendering" where
  "GlobalDataProvider st =
     (if isInitialLoad st \<and> showProgress st then LoadingProgress
      else Provider (provider_value st))"

text \<open>
  \<^verbatim>\<open>useContext(GlobalDataContext)\<close> yields the value of the nearest provider above the
  caller, and \<^verbatim>\<open>undefined\<close> (here \<open>None\<close>) when there is none, the context having been
  created without a default. \<^verbatim>\<open>useGlobalData\<close> throws on \<^verbatim>\<open>undefined\<close>.
\<close>

datatype js_error = Error string

definition useGlobalData :: "context_value option \<Rightarrow> js_error + context_value" where
  "useGlobalData context =
     (case context of
        None \<Rightarrow> Inl (Error ''useGlobalData must be used within a GlobalDataProvider'')
      | Some c \<Rightarrow> Inr c)"

record section_result =
  section_data :: jsval
  section_loading :: bool
  section_error :: "string option"

definition useSectionData :: "context_value option \<Rightarrow> string \<Rightarrow> js_error + section_result" where
  "useSectionData context sectionName =
     (case useGlobalData context of
        Inl e \<Rightarrow> Inl e
      | Inr c \<Rightarrow>
          Inr \<lparr>section_data = or_null (optional_get (data c) sectionName),
               section_loading = ctx_loading c,
               section_error = ctx_error c\<rparr>)"

subsection \<open>The provider over time\<close>

text \<open>
  Between two renders the provider's state changes in whole steps: one run of the effect
  body, the settling of one suspended \<^verbatim>\<open>fetchGlobalData\<close> (all its setters are called in
  one synchronous run), a call of \<^verbatim>\<open>refetch\<close>, or the progress indicator's callback.
  A suspended \<^verbatim>\<open>fetchGlobalData\<close> is its closure, of which only \<^verbatim>\<open>startTime\<close> is read
  later; \<open>pending\<close> lists the suspended calls.
\<close>

record provider =
  cache :: CacheState
  pending :: "real list"

datatype event =
    Evaluate int real
  | Settle nat real fetch_result int
  | Refetch
  | ProgressComplete

definition mount :: provider where
  "mount = \<lparr>cache = initial_state, pending = []\<rparr>"

text \<open>
  \<open>Evaluate now startTime\<close> runs the effect body; when it starts a fetch the call is
  suspended with its \<open>startTime\<close>. \<open>Settle i endTime result now\<close> resumes the \<open>i\<close>-th
  suspended call; there is no such step when fewer calls are suspended.
\<close>

fun step :: "event \<Rightarrow> provider \<Rightarrow> provider option" where
  "step (Evaluate now startTime) p =
     Some \<lparr>cache = fst (useEffect_body now (cache p)),
           pending = (if shouldFetch now (cache p) then pending p @ [startTime]
                      else pending p)\<rparr>"
| "step (Settle i endTime result now) p =
     (if i < length (pending p)
      then Some \<lparr>cache = fst (fetchGlobalData_resume (pending p ! i) endTime result now (cache p)),
                 pending = take i (pending p) @ drop (Suc i) (pending p)\<rparr>
      else None)"
| "step Refetch p = Some (p\<lparr>cache := refetch (provider_value (cache p)) (cache p)\<rparr>)"
| "step ProgressComplete p = Some (p\<lparr>cache := handleProgressComplete (cache p)\<rparr>)"

fun run :: "event list \<Rightarrow> provider \<Rightarrow> provider option" where
  "run [] p = Some p"
| "run (e # es) p = (case step e p of None \<Rightarrow> None | Some p' \<Rightarrow> run es p')"

fun is_settle :: "event \<Rightarrow> bool" where
  "is_settle (Settle i endTime result now) = True"
| "is_settle e = False"

fun is_rejection :: "event \<Rightarrow> bool" where
  "is_rejection (Settle i endTime (Rejected message) now) = True"
| "is_rejection e = False"

subsection \<open>Sample data\<close>

text \<open>An aggregate of the shape the site serves, cut down to a few fields.\<close>

definition sample_aggregate :: aggregate where
  "sample_aggregate =
     [(''home'', JObj [(''title'', JStr ''Your Name'')]),
      (''about'', JObj [(''skills'', JArr [JStr ''Skill 1''])]),
      (''awards'', JArr []),
      (''projects'', JArr [JObj [(''title'', JStr ''Project Name'')]]),
      (''contact'', JObj [(''email'', JStr ''me@example.org'')])]"

text \<open>
  A session: mount, the first fetch resolves, the effect runs again on the changed
  state, the progress indicator finishes, the user asks for a refetch, the effect runs
  again, and the second fetch is rejected.
\<close>

definition sample_session :: "event list" where
  "sample_session =
     [Evaluate 1700000000000 120,
      Settle 0 170 (Resolved (Some sample_aggregate)) 1700000000050,
      Evaluate 1700000000051 171,
      ProgressComplete,
      Refetch,
      Evaluate 1700000060000 60120,
      Settle 0 60500 (Rejected ''network unreachable'') 1700000060380]"

text \<open>
  A session with overlapping fetches, on a present-day clock. The first fetch resolves
  with \<^verbatim>\<open>null\<close>; \<open>lastFetch\<close> has changed, so the effect runs again and, the data being
  absent, starts a second fetch. While it is in flight a consumer calls \<^verbatim>\<open>refetch\<close>;
  \<open>lastFetch\<close> changes again and the effect starts a third fetch. The third is rejected,
  then the second resolves with the aggregate.
\<close>

definition overlap_session :: "event list" where
  "overlap_session =
     [Evaluate 1700000000000 120,
      Settle 0 170 (Resolved None) 1700000000050,
      Evaluate 1700000000051 171,
      Refetch,
      Evaluate 1700000000100 220,
      Settle 1 300 (Rejected ''boom'') 1700000000180,
      Settle 0 520 (Resolved (Some sample_aggregate)) 1700000000400]"

text \<open>
  A refetch during the first load: mount starts the first fetch, the progress indicator
  finishes and the children render, a consumer calls \<^verbatim>\<open>refetch\<close> while the fetch is in
  flight, and the fetch resolves.
\<close>

definition refetch_in_flight :: "event list" where
  "refetch_in_flight =
     [Evaluate 1700000000000 120,
      ProgressComplete,
      Refetch,
      Settle 0 170 (Resolved (Some sample_aggregate)) 1700000000050]"

text \<open>A cache whose aggregate has an empty string for one section and 0 for another.\<close>

definition blank_aggregate :: aggregate where
  "blank_aggregate = [(''home'', JObj []), (''about'', JStr []), (''awards'', JNum 0)]"

definition filled_blank :: CacheState where
  "filled_blank =
     \<lparr>globalData = Some blank_aggregate, loading = False, error = None,
      lastFetch = 1700000000000, isInitialLoad = False, showProgress = False\<rparr>"

text \<open>The first load alone: mount, and the first fetch resolves.\<close>

definition sample_first_load :: "event list" where
  "sample_first_load =
     [Evaluate 1700000000000 120,
      Settle 0 170 (Resolved (Some sample_aggregate)) 1700000000050]"

subsection \<open>Data present, first load over\<close>

text \<open>Whenever the cache holds data, the first-load flag is down.\<close>

definition flag_inv :: "provider \<Rightarrow> bool" where
  "flag_inv p = (globalData (cache p) = None \<or> \<not> isInitialLoad (cache p))"

section \<open>Properties\<close>

text \<open>
  C1. The staleness evaluation calls the data service if and only if the cached data is
  absent or the current time minus \<open>lastFetch\<close> exceeds \<open>CACHE_DURATION\<close>, which is
  30 minutes (30 * 60 * 1000 ms); when data is present and at most 30 minutes old,
  running the evaluation makes no call to the data service, for any locale.
\<close>

theorem staleness_evaluation:
  "CACHE_DURATION = 30 * 60 * 1000
   \<and> (GetPortfolioDataOptimized ''en'' \<in> set (snd (useEffect_body now st))
        \<longleftrightarrow> globalData st = None \<or> now - lastFetch st > 30 * 60 * 1000)
   \<and> (shouldFetch now st \<longleftrightarrow> globalData st = None \<or> now - lastFetch st > 30 * 60 * 1000)
   \<and> (shouldFetch now st \<longrightarrow> useEffect_body now st = fetchGlobalData_start st)
   \<and> (globalData st \<noteq> None \<and> now - lastFetch st \<le> 30 * 60 * 1000
        \<longrightarrow> (\<forall>locale. GetPortfolioDataOptimized locale \<notin> set (snd (useEffect_body now st))))"
  by (simp add: useEffect_body_def shouldFetch_def fetchGlobalData_start_def CACHE_DURATION_def)

theorem staleness_evaluation_witness:
  "GetPortfolioDataOptimized ''en'' \<in> set (snd (useEffect_body 1700000000000 initial_state))
   \<and> useEffect_body 1700000000000 initial_state = fetchGlobalData_start initial_state
   \<and> GetPortfolioDataOptimized ''en''
        \<in> set (snd (useEffect_body 1700001800001
              \<lparr>globalData = Some [(''home'', JNull)], loading = False, error = None,
               lastFetch = 1700000000000, isInitialLoad = False, showProgress = False\<rparr>))
   \<and> GetPortfolioDataOptimized ''en''
        \<notin> set (snd (useEffect_body 1700001800000
              \<lparr>globalData = Some [(''home'', JNull)], loading = False, error = None,
               lastFetch = 1700000000000, isInitialLoad = False, showProgress = False\<rparr>))"
  using staleness_evaluation [of 1700000000000 initial_state]
    staleness_evaluation [of 1700001800001
      "\<lparr>globalData = Some [(''home'', JNull)], loading = False, error = None,
        lastFetch = 1700000000000, isInitialLoad = False, showProgress = False\<rparr>"]
    staleness_evaluation [of 1700001800000
      "\<lparr>globalData = Some [(''home'', JNull)], loading = False, error = None,
        lastFetch = 1700000000000, isInitialLoad = False, showProgress = False\<rparr>"]
  by (simp add: initial_state_def shouldFetch_def CACHE_DURATION_def fetchGlobalData_start_def)

text \<open>
  C3. When the data service rejects with an error carrying message \<open>m\<close>, then after the
  fetch sequence, whatever the cache state before it: \<open>error\<close> is \<open>m\<close>, the data is what
  it was before the sequence (absent when the sequence started from the initial state),
  and \<open>loading\<close> is false. \<open>loading\<close>, which the sequence first sets to true, is false
  after the sequence however the promise settles. The settling step alone, from any
  state, stores the message and leaves the data and the fetch timestamp as they are.
\<close>

theorem fetch_failure:
  "error (fst (fetchGlobalData startTime endTime (Rejected m) now st)) = Some m
   \<and> globalData (fst (fetchGlobalData startTime endTime (Rejected m) now st)) = globalData st
   \<and> loading (fst (fetchGlobalData startTime endTime (Rejected m) now st)) = False
   \<and> globalData (fst (fetchGlobalData startTime endTime (Rejected m) now initial_state)) = None
   \<and> loading (fst (fetchGlobalData_start st)) = True
   \<and> loading (fst (fetchGlobalData startTime endTime result now st)) = False
   \<and> loading (fst (fetchGlobalData_resume startTime endTime result now st)) = False
   \<and> error (fst (fetchGlobalData_resume startTime endTime (Rejected m) now st)) = Some m
   \<and> globalData (fst (fetchGlobalData_resume startTime endTime (Rejected m) now st)) = globalData st
   \<and> lastFetch (fst (fetchGlobalData_resume startTime endTime (Rejected m) now st)) = lastFetch st"
proof -
  have resume: "loading (fst (fetchGlobalData_resume startTime endTime result now s)) = False"
    for s
    by (cases result) (simp_all add: Let_def)
  have whole: "loading (fst (fetchGlobalData startTime endTime result now st)) = False"
    by (simp add: fetchGlobalData_def split_beta resume)
  show ?thesis
    using whole resume [of st]
    by (simp add: fetchGlobalData_def fetchGlobalData_start_def split_beta initial_state_def)
qed

subsection \<open>The error cell between the start and the settling of a fetch\<close>

text \<open>
  Only the start of a fetch sequence clears \<open>error\<close> and only a rejection writes it, so
  an absent \<open>error\<close> stays absent through every step that is not a rejection.
\<close>

lemma resume_resolved_error:
  "error (fst (fetchGlobalData_resume startTime endTime (Resolved d) t st)) = error st"
  by (simp add: Let_def)

lemma step_keeps_error_absent:
  assumes "step e p = Some p'" and "error (cache p) = None" and "\<not> is_rejection e"
  shows "error (cache p') = None"
proof (cases e)
  case (Evaluate now startTime)
  with assms show ?thesis
    by (auto simp: useEffect_body_def fetchGlobalData_start_def)
next
  case (Settle i endTime result now)
  with assms(3) obtain d where "result = Resolved d"
    by (cases result) auto
  with Settle assms(1,2) show ?thesis
    by (auto simp: Let_def split: if_splits)
next
  case Refetch
  with assms show ?thesis
    by (auto simp: provider_value_def)
next
  case ProgressComplete
  with assms show ?thesis
    by (auto simp: handleProgressComplete_def)
qed

lemma run_keeps_error_absent:
  assumes "run es p = Some p'" and "error (cache p) = None" and "\<not> list_ex is_rejection es"
  shows "error (cache p') = None"
  using assms
proof (induction es arbitrary: p)
  case Nil
  then show ?case by simp
next
  case (Cons e es)
  from Cons.prems(1) obtain q where q: "step e p = Some q" and rest: "run es q = Some p'"
    by (auto split: option.splits)
  from Cons.prems(3) have e: "\<not> is_rejection e" and es: "\<not> list_ex is_rejection es"
    by simp_all
  from step_keeps_error_absent [OF q Cons.prems(2) e] have "error (cache q) = None" .
  from Cons.IH [OF rest this es] show ?case .
qed

lemma overlap_session_run:
  "run overlap_session mount =
     Some \<lparr>cache = \<lparr>globalData = Some sample_aggregate, loading = False,
                     error = Some ''boom'', lastFetch = 1700000000400,
                     isInitialLoad = False, showProgress = True\<rparr>,
           pending = []\<rparr>"
  by (simp add: overlap_session_def mount_def initial_state_def useEffect_body_def
      shouldFetch_def CACHE_DURATION_def fetchGlobalData_start_def provider_value_def
      Let_def)

text \<open>
  C4 (as amended). When a fetch resolves with \<open>d\<close> and the clock reads \<open>t\<close> at that
  moment, then after the settling, from whatever state it happens in, the data is \<open>d\<close>
  and \<open>lastFetch\<close> is \<open>t\<close>; the settling does not write \<open>error\<close>. \<open>error\<close> is cleared
  when a fetch sequence starts, so it is absent after the settling whenever no fetch
  was rejected between the start of a sequence and the settling: in the provider's
  sessions (the first three conjuncts), and in particular for a sequence that runs with
  nothing in between (the last three).
\<close>

theorem fetch_success:
  assumes "shouldFetch now0 (cache p0)"
    and "step (Evaluate now0 startTime0) p0 = Some p1"
    and "run es p1 = Some p2"
    and "\<not> list_ex is_rejection es"
    and "step (Settle i endTime (Resolved d) t) p2 = Some p3"
  shows "globalData (cache p3) = d
         \<and> lastFetch (cache p3) = t
         \<and> error (cache p3) = None
         \<and> globalData (fst (fetchGlobalData_resume startTime endTime (Resolved d) t st)) = d
         \<and> lastFetch (fst (fetchGlobalData_resume startTime endTime (Resolved d) t st)) = t
         \<and> error (fst (fetchGlobalData_resume startTime endTime (Resolved d) t st)) = error st
         \<and> error (fst (fetchGlobalData_start st)) = None
         \<and> globalData (fst (fetchGlobalData startTime endTime (Resolved d) t st)) = d
         \<and> lastFetch (fst (fetchGlobalData startTime endTime (Resolved d) t st)) = t
         \<and> error (fst (fetchGlobalData startTime endTime (Resolved d) t st)) = None"
proof -
  from assms(1,2) have "error (cache p1) = None"
    by (auto simp: useEffect_body_def fetchGlobalData_start_def)
  from run_keeps_error_absent [OF assms(3) this assms(4)] have before: "error (cache p2) = None" .
  from assms(5) have p3: "cache p3 = fst (fetchGlobalData_resume (pending p2 ! i) endTime
      (Resolved d) t (cache p2))"
    by (auto split: if_splits)
  from p3 before have session:
    "globalData (cache p3) = d \<and> lastFetch (cache p3) = t \<and> error (cache p3) = None"
    by (simp add: Let_def)
  have alone:
    "globalData (fst (fetchGlobalData_resume startTime endTime (Resolved d) t st)) = d
     \<and> lastFetch (fst (fetchGlobalData_resume startTime endTime (Resolved d) t st)) = t
     \<and> error (fst (fetchGlobalData_resume startTime endTime (Resolved d) t st)) = error st
     \<and> error (fst (fetchGlobalData_start st)) = None"
    by (simp add: Let_def fetchGlobalData_start_def)
  have whole:
    "globalData (fst (fetchGlobalData startTime endTime (Resolved d) t st)) = d
     \<and> lastFetch (fst (fetchGlobalData startTime endTime (Resolved d) t st)) = t
     \<and> error (fst (fetchGlobalData startTime endTime (Resolved d) t st)) = None"
    by (simp add: fetchGlobalData_def fetchGlobalData_start_def Let_def split_beta)
  from session alone whole show ?thesis
    by simp
qed

theorem fetch_success_witness:
  "shouldFetch 1700000000000 (cache mount)
   \<and> step (Evaluate 1700000000000 120) mount
       = Some \<lparr>cache = initial_state, pending = [120]\<rparr>
   \<and> run [ProgressComplete] \<lparr>cache = initial_state, pending = [120]\<rparr>
       = Some \<lparr>cache = initial_state\<lparr>showProgress := False\<rparr>, pending = [120]\<rparr>
   \<and> step (Settle 0 170 (Resolved (Some sample_aggregate)) 1700000000050)
         \<lparr>cache = initial_state\<lparr>showProgress := False\<rparr>, pending = [120]\<rparr>
       = Some \<lparr>cache = \<lparr>globalData = Some sample_aggregate, loading = False, error = None,
                        lastFetch = 1700000000050, isInitialLoad = False,
                        showProgress = False\<rparr>,
               pending = []\<rparr>
   \<and> error (cache \<lparr>cache = \<lparr>globalData = Some sample_aggregate, loading = False,
                              error = None, lastFetch = 1700000000050,
                              isInitialLoad = False, showProgress = False\<rparr>,
                     pending = []\<rparr>) = None"
proof -
  have stale: "shouldFetch 1700000000000 (cache mount)"
    by (simp add: shouldFetch_def mount_def initial_state_def)
  have start: "step (Evaluate 1700000000000 120) mount
                = Some \<lparr>cache = initial_state, pending = [120]\<rparr>"
    by (simp add: mount_def initial_state_def useEffect_body_def shouldFetch_def
        fetchGlobalData_start_def)
  have between: "run [ProgressComplete] \<lparr>cache = initial_state, pending = [120]\<rparr>
                  = Some \<lparr>cache = initial_state\<lparr>showProgress := False\<rparr>, pending = [120]\<rparr>"
    by (simp add: handleProgressComplete_def)
  have none: "\<not> list_ex is_rejection [ProgressComplete]"
    by simp
  have settle: "step (Settle 0 170 (Resolved (Some sample_aggregate)) 1700000000050)
                  \<lparr>cache = initial_state\<lparr>showProgress := False\<rparr>, pending = [120]\<rparr>
                = Some \<lparr>cache = \<lparr>globalData = Some sample_aggregate, loading = False,
                                 error = None, lastFetch = 1700000000050,
                                 isInitialLoad = False, showProgress = False\<rparr>,
                        pending = []\<rparr>"
    by (simp add: initial_state_def Let_def)
  from fetch_success [OF stale start between none settle]
  have "error (cache \<lparr>cache = \<lparr>globalData = Some sample_aggregate, loading = False,
                                 error = None, lastFetch = 1700000000050,
                                 isInitialLoad = False, showProgress = False\<rparr>,
                        pending = []\<rparr>) = None"
    by blast
  with stale start between settle show ?thesis
    by blast
qed

text \<open>
  In the session with overlapping fetches the last step is the settling of a fetch that
  resolves with the aggregate, and after it \<open>error\<close> holds the message of the fetch
  rejected in between.
\<close>

theorem fetch_success_counterexample:
  "last overlap_session = Settle 0 520 (Resolved (Some sample_aggregate)) 1700000000400
   \<and> run overlap_session mount \<noteq> None
   \<and> globalData (cache (the (run overlap_session mount))) = Some sample_aggregate
   \<and> lastFetch (cache (the (run overlap_session mount))) = 1700000000400
   \<and> error (cache (the (run overlap_session mount))) = Some ''boom''
   \<and> error (cache (the (run overlap_session mount))) \<noteq> None"
  by (simp add: overlap_session_run) (simp add: overlap_session_def)

subsection \<open>The record of a fetch sequence\<close>

lemma preloadSections_filter:
  "preloadSections ks =
     map PreloadSectionImages (filter (\<lambda>k. k \<noteq> ''home'' \<and> k \<noteq> ''contact'') ks)"
  by (induction ks) simp_all

lemma apply_setters_append:
  "apply_setters (xs @ ys) st = apply_setters ys (apply_setters xs st)"
  by (induction xs arbitrary: st) simp_all

lemma apply_setters_preloadSections: "apply_setters (preloadSections ks) st = st"
  by (induction ks) simp_all

text \<open>The state each function returns is the state its recorded setters produce.\<close>

lemma start_setters:
  "fst (fetchGlobalData_start st) = apply_setters (snd (fetchGlobalData_start st)) st"
  by (simp add: fetchGlobalData_start_def)

lemma resume_setters:
  "fst (fetchGlobalData_resume startTime endTime result now st)
     = apply_setters (snd (fetchGlobalData_resume startTime endTime result now st)) st"
proof (cases result)
  case (Resolved d)
  then show ?thesis
    by (cases d) (simp_all add: Let_def apply_setters_append apply_setters_preloadSections)
next
  case (Rejected m)
  then show ?thesis by simp
qed

lemma useEffect_body_setters:
  "fst (useEffect_body now st) = apply_setters (snd (useEffect_body now st)) st"
  by (simp add: useEffect_body_def start_setters)

lemma fetchGlobalData_setters:
  "fst (fetchGlobalData startTime endTime result now st)
     = apply_setters (snd (fetchGlobalData startTime endTime result now st)) st"
  using start_setters [of st]
    resume_setters [of startTime endTime result now "fst (fetchGlobalData_start st)"]
  by (simp add: fetchGlobalData_def split_beta apply_setters_append)

text \<open>
  C7 (as amended). The statements of one fetch sequence, in order. Before the promise
  settles: \<open>loading\<close> set, \<open>error\<close> cleared, the log line, the start timestamp read, the
  critical-image preload, then the call of the data service for \<open>''en''\<close>. After it
  resolves with an aggregate \<open>d\<close>: the end timestamp read, the log line, the performance
  tracker, the data stored, \<open>lastFetch\<close> set, the preload of the images in \<open>d\<close>, one
  section preload for every top-level key of \<open>d\<close> other than \<open>''home''\<close> and
  \<open>''contact''\<close>, in key order, then \<open>isInitialLoad\<close> and \<open>loading\<close> cleared. After it
  resolves with \<open>null\<close>: the same without any preloader call. After it is rejected: the
  error logged, the message stored, then \<open>isInitialLoad\<close> and \<open>loading\<close> cleared, and no
  preloader call. The state after the sequence is what these setters write.
\<close>

theorem fetch_call_order:
  "snd (fetchGlobalData startTime endTime result now st)
     = snd (fetchGlobalData_start st)
       @ snd (fetchGlobalData_resume startTime endTime result now (fst (fetchGlobalData_start st)))
   \<and> snd (fetchGlobalData_start st)
     = [SetLoading True, SetError None, LoggerData Fetching_global_portfolio_data,
        PerformanceNow, PreloadCriticalImages, GetPortfolioDataOptimized ''en'']
   \<and> snd (fetchGlobalData_resume startTime endTime (Resolved (Some d)) now st')
     = [PerformanceNow,
        LoggerData (Global_data_loaded_in (Elapsed endTime startTime)),
        TrackDataFetch ''global_portfolio_data'' (Elapsed endTime startTime),
        SetGlobalData (Some d), SetLastFetch now,
        PreloadDataImages d]
       @ map PreloadSectionImages
           (filter (\<lambda>k. k \<noteq> ''home'' \<and> k \<noteq> ''contact'') (map fst d))
       @ [SetIsInitialLoad False, SetLoading False]
   \<and> snd (fetchGlobalData_resume startTime endTime (Resolved None) now st')
     = [PerformanceNow,
        LoggerData (Global_data_loaded_in (Elapsed endTime startTime)),
        TrackDataFetch ''global_portfolio_data'' (Elapsed endTime startTime),
        SetGlobalData None, SetLastFetch now,
        SetIsInitialLoad False, SetLoading False]
   \<and> snd (fetchGlobalData_resume startTime endTime (Rejected m) now st')
     = [LoggerError m, SetError (Some m), SetIsInitialLoad False, SetLoading False]
   \<and> fst (fetchGlobalData startTime endTime result now st)
     = apply_setters (snd (fetchGlobalData startTime endTime result now st)) st"
  using fetchGlobalData_setters [of startTime endTime result now st]
  by (simp add: fetchGlobalData_def fetchGlobalData_start_def Let_def split_beta
      preloadSections_filter Object_keys_def)

theorem fetch_call_order_witness:
  "snd (fetchGlobalData 120 170 (Resolved (Some sample_aggregate)) 1700000000050 initial_state)
     = [SetLoading True, SetError None, LoggerData Fetching_global_portfolio_data,
        PerformanceNow, PreloadCriticalImages, GetPortfolioDataOptimized ''en'',
        PerformanceNow,
        LoggerData (Global_data_loaded_in (Elapsed 170 120)),
        TrackDataFetch ''global_portfolio_data'' (Elapsed 170 120),
        SetGlobalData (Some sample_aggregate), SetLastFetch 1700000000050,
        PreloadDataImages sample_aggregate,
        PreloadSectionImages ''about'',
        PreloadSectionImages ''awards'',
        PreloadSectionImages ''projects'',
        SetIsInitialLoad False, SetLoading False]
   \<and> fst (fetchGlobalData 120 170 (Resolved (Some sample_aggregate)) 1700000000050 initial_state)
     = \<lparr>globalData = Some sample_aggregate, loading = False, error = None,
        lastFetch = 1700000000050, isInitialLoad = False, showProgress = True\<rparr>"
  using fetch_call_order [of 120 170 "Resolved (Some sample_aggregate)" 1700000000050
      initial_state sample_aggregate "fst (fetchGlobalData_start initial_state)" "''m''"]
  by (simp add: sample_aggregate_def initial_state_def fetchGlobalData_start_def)

text \<open>
  The spec's list puts the critical-image preload (step 2) before the start timestamp
  (step 3), and clearing \<open>isInitialLoad\<close> (step 6) before storing the failure's message
  (step 7). The code reads the start timestamp first, and on failure stores the message
  first.
\<close>

theorem fetch_call_order_counterexample:
  "occurs_before PerformanceNow PreloadCriticalImages (snd (fetchGlobalData_start initial_state))
   \<and> \<not> occurs_before PreloadCriticalImages PerformanceNow
         (snd (fetchGlobalData_start initial_state))
   \<and> occurs_before (SetError (Some ''network unreachable'')) (SetIsInitialLoad False)
       (snd (fetchGlobalData 120 170 (Rejected ''network unreachable'') 1700000000050
              initial_state))
   \<and> \<not> occurs_before (SetIsInitialLoad False) (SetError (Some ''network unreachable''))
         (snd (fetchGlobalData 120 170 (Rejected ''network unreachable'') 1700000000050
                initial_state))"
  by (simp add: fetchGlobalData_def fetchGlobalData_start_def split_beta)

text \<open>
  C8. Under a mounted provider rendering state \<open>st\<close>, \<open>useGlobalData\<close> returns the record
  of \<open>data\<close>, \<open>loading\<close>, \<open>error\<close>, \<open>lastFetch\<close>, \<open>isInitialLoad\<close> and \<open>refetch\<close>, with the
  values of \<open>st\<close>; with no provider it raises an error and returns nothing.
\<close>

theorem consumer_lookup:
  "useGlobalData (Some (provider_value st))
     = Inr \<lparr>data = globalData st, ctx_loading = loading st, ctx_error = error st,
            ctx_lastFetch = lastFetch st, ctx_isInitialLoad = isInitialLoad st,
            refetch = (\<lambda>s. s\<lparr>lastFetch := 0\<rparr>)\<rparr>
   \<and> useGlobalData (Some c) = Inr c
   \<and> useGlobalData None
     = Inl (Error ''useGlobalData must be used within a GlobalDataProvider'')"
  by (simp add: useGlobalData_def provider_value_def)

lemma refetch_sets_lastFetch:
  "refetch (provider_value st0) st = st\<lparr>lastFetch := 0\<rparr>"
  by (simp add: provider_value_def)

text \<open>
  C5. \<open>refetch\<close> sets \<open>lastFetch\<close> to 0; when \<open>lastFetch\<close> is 0 already, as it is while
  the first load is in flight, the call changes nothing, and a fetch that resolves
  afterwards overwrites the 0. In the session where \<open>refetch\<close> is called during the
  first load, the call leaves the state as it was, and the staleness evaluation that
  follows it, run one millisecond after the fetch has resolved, takes the cached branch:
  the data service is not called.
\<close>

theorem refetch_lost_in_flight:
  "run [Evaluate 1700000000000 120, ProgressComplete] mount
     = Some \<lparr>cache = initial_state\<lparr>showProgress := False\<rparr>, pending = [120]\<rparr>
   \<and> refetch (provider_value (initial_state\<lparr>showProgress := False\<rparr>))
        (initial_state\<lparr>showProgress := False\<rparr>)
     = initial_state\<lparr>showProgress := False\<rparr>
   \<and> run refetch_in_flight mount
     = Some \<lparr>cache = \<lparr>globalData = Some sample_aggregate, loading = False, error = None,
                      lastFetch = 1700000000050, isInitialLoad = False,
                      showProgress = False\<rparr>,
             pending = []\<rparr>
   \<and> \<not> shouldFetch 1700000000051 (cache (the (run refetch_in_flight mount)))
   \<and> useEffect_body 1700000000051 (cache (the (run refetch_in_flight mount)))
     = (\<lparr>globalData = Some sample_aggregate, loading = False, error = None,
         lastFetch = 1700000000050, isInitialLoad = False, showProgress = False\<rparr>,
        [LoggerData Using_cached_global_data, SetLoading False, SetIsInitialLoad False])
   \<and> GetPortfolioDataOptimized ''en''
       \<notin> set (snd (useEffect_body 1700000000051 (cache (the (run refetch_in_flight mount)))))"
proof -
  have before: "run [Evaluate 1700000000000 120, ProgressComplete] mount
                 = Some \<lparr>cache = initial_state\<lparr>showProgress := False\<rparr>, pending = [120]\<rparr>"
    by (simp add: mount_def initial_state_def useEffect_body_def shouldFetch_def
        fetchGlobalData_start_def handleProgressComplete_def)
  have noop: "refetch (provider_value (initial_state\<lparr>showProgress := False\<rparr>))
                (initial_state\<lparr>showProgress := False\<rparr>)
              = initial_state\<lparr>showProgress := False\<rparr>"
    by (simp add: provider_value_def initial_state_def)
  have whole: "run refetch_in_flight mount
                = Some \<lparr>cache = \<lparr>globalData = Some sample_aggregate, loading = False,
                                 error = None, lastFetch = 1700000000050,
                                 isInitialLoad = False, showProgress = False\<rparr>,
                        pending = []\<rparr>"
    by (simp add: refetch_in_flight_def mount_def initial_state_def useEffect_body_def
        shouldFetch_def fetchGlobalData_start_def handleProgressComplete_def
        provider_value_def Let_def)
  have cached: "\<not> shouldFetch 1700000000051 (cache (the (run refetch_in_flight mount)))"
    by (simp add: whole shouldFetch_def CACHE_DURATION_def)
  have body: "useEffect_body 1700000000051 (cache (the (run refetch_in_flight mount)))
     = (\<lparr>globalData = Some sample_aggregate, loading = False, error = None,
         lastFetch = 1700000000050, isInitialLoad = False, showProgress = False\<rparr>,
        [LoggerData Using_cached_global_data, SetLoading False, SetIsInitialLoad False])"
    by (simp add: whole useEffect_body_def shouldFetch_def CACHE_DURATION_def)
  have quiet: "GetPortfolioDataOptimized ''en''
       \<notin> set (snd (useEffect_body 1700000000051 (cache (the (run refetch_in_flight mount)))))"
    by (simp add: body)
  from before noop whole cached body quiet show ?thesis
    by blast
qed

text \<open>
  C6 (as amended). Under a provider, for every context value and every section name,
  \<open>useSectionData\<close> returns normally. Its data is what reading the named property of the
  cached aggregate yields (the aggregate's own field of that name, or failing that the
  property of that name inherited from \<open>Object.prototype\<close>) when the aggregate is
  loaded and that value is truthy, and \<open>null\<close> in every other case; \<open>loading\<close> and
  \<open>error\<close> are those of the context value. Asked for \<open>''projects''\<close> before any fetch has
  settled it returns \<open>null\<close>, loading, no error. The result is a function of the context
  value and the name alone.
\<close>

theorem section_accessor:
  "useSectionData (Some c) s
     = Inr \<lparr>section_data =
              (case data c of
                 None \<Rightarrow> JNull
               | Some d \<Rightarrow>
                   (case map_of d s of
                      Some v \<Rightarrow> if truthy v then v else JNull
                    | None \<Rightarrow>
                        (case map_of Object_prototype s of
                           Some inherited \<Rightarrow> inherited
                         | None \<Rightarrow> JNull))),
            section_loading = ctx_loading c,
            section_error = ctx_error c\<rparr>
   \<and> map fst Object_prototype
     = [''constructor'', ''__defineGetter__'', ''__defineSetter__'', ''hasOwnProperty'',
        ''__lookupGetter__'', ''__lookupSetter__'', ''isPrototypeOf'',
        ''propertyIsEnumerable'', ''toString'', ''valueOf'', ''__proto__'',
        ''toLocaleString'']
   \<and> useSectionData (Some (provider_value initial_state)) ''projects''
     = Inr \<lparr>section_data = JNull, section_loading = True, section_error = None\<rparr>"
proof -
  have inherited_truthy: "truthy f" if "map_of Object_prototype s = Some f" for f
    using that by (auto simp: Object_prototype_def split: if_splits)
  have general: "useSectionData (Some c) s
     = Inr \<lparr>section_data =
              (case data c of
                 None \<Rightarrow> JNull
               | Some d \<Rightarrow>
                   (case map_of d s of
                      Some v \<Rightarrow> if truthy v then v else JNull
                    | None \<Rightarrow>
                        (case map_of Object_prototype s of
                           Some inherited \<Rightarrow> inherited
                         | None \<Rightarrow> JNull))),
            section_loading = ctx_loading c,
            section_error = ctx_error c\<rparr>"
    by (auto simp: useSectionData_def useGlobalData_def optional_get_def or_null_def
        inherited_truthy split: option.splits)
  have names: "map fst Object_prototype
     = [''constructor'', ''__defineGetter__'', ''__defineSetter__'', ''hasOwnProperty'',
        ''__lookupGetter__'', ''__lookupSetter__'', ''isPrototypeOf'',
        ''propertyIsEnumerable'', ''toString'', ''valueOf'', ''__proto__'',
        ''toLocaleString'']"
    by (simp add: Object_prototype_def)
  have early: "useSectionData (Some (provider_value initial_state)) ''projects''
     = Inr \<lparr>section_data = JNull, section_loading = True, section_error = None\<rparr>"
    by (simp add: useSectionData_def useGlobalData_def optional_get_def or_null_def
        provider_value_def initial_state_def)
  from general names early show ?thesis
    by simp
qed

text \<open>
  In the loaded aggregate \<open>blank_aggregate\<close> the field \<open>''about''\<close> is present and holds
  the empty string; the accessor returns \<open>null\<close>, not the empty string. The aggregate
  has no field \<open>''toString''\<close>; the accessor returns the inherited function, not \<open>null\<close>.
\<close>

theorem section_accessor_counterexample:
  "globalData filled_blank = Some blank_aggregate
   \<and> map_of blank_aggregate ''about'' = Some (JStr [])
   \<and> useSectionData (Some (provider_value filled_blank)) ''about''
     = Inr \<lparr>section_data = JNull, section_loading = False, section_error = None\<rparr>
   \<and> useSectionData (Some (provider_value filled_blank)) ''about''
     \<noteq> Inr \<lparr>section_data = JStr [], section_loading = False, section_error = None\<rparr>
   \<and> map_of blank_aggregate ''toString'' = None
   \<and> useSectionData (Some (provider_value filled_blank)) ''toString''
     = Inr \<lparr>section_data = JFunction ''toString'', section_loading = False,
            section_error = None\<rparr>
   \<and> useSectionData (Some (provider_value filled_blank)) ''toString''
     \<noteq> Inr \<lparr>section_data = JNull, section_loading = False, section_error = None\<rparr>"
  by (simp add: useSectionData_def useGlobalData_def optional_get_def or_null_def
      provider_value_def filled_blank_def blank_aggregate_def Object_prototype_def)

text \<open>
  C9. When the loaded aggregate has field \<open>s\<close> and its value is falsy, \<open>useSectionData\<close>
  returns \<open>null\<close> for the data, because \<open>data?.[sectionName] || null\<close> tests the value's
  truthiness. The empty string, 0, \<open>false\<close> and \<open>null\<close> are falsy.
\<close>

theorem falsy_section_is_null:
  assumes "data c = Some d" and "map_of d s = Some v" and "\<not> truthy v"
  shows "useSectionData (Some c) s
           = Inr \<lparr>section_data = JNull, section_loading = ctx_loading c,
                  section_error = ctx_error c\<rparr>
         \<and> \<not> truthy (JStr []) \<and> \<not> truthy (JNum 0) \<and> \<not> truthy (JBool False)
         \<and> \<not> truthy JNull"
  using assms
  by (simp add: useSectionData_def useGlobalData_def optional_get_def or_null_def)

theorem falsy_section_is_null_witness:
  "data (provider_value filled_blank) = Some blank_aggregate
   \<and> map_of blank_aggregate ''awards'' = Some (JNum 0)
   \<and> \<not> truthy (JNum 0)
   \<and> useSectionData (Some (provider_value filled_blank)) ''awards''
     = Inr \<lparr>section_data = JNull, section_loading = False, section_error = None\<rparr>"
  using falsy_section_is_null [of "provider_value filled_blank" blank_aggregate
      "''awards''" "JNum 0"]
  by (simp add: provider_value_def filled_blank_def blank_aggregate_def)

subsection \<open>The first-load flag along a session\<close>

text \<open>
  The invariant behind C2 and C10: whenever the cache holds data, the first-load flag is
  down. It holds at mount and every step keeps it; under it, a step lowers the flag
  exactly when it is the settling of a fetch, and no step raises it.
\<close>

lemma flag_inv_mount: "flag_inv mount"
  by (simp add: flag_inv_def mount_def initial_state_def)

lemma resume_flag:
  "\<not> isInitialLoad (fst (fetchGlobalData_resume startTime endTime result now st))"
  by (cases result) (simp_all add: Let_def)

lemma useEffect_body_flag:
  "isInitialLoad (fst (useEffect_body now st)) = (isInitialLoad st \<and> shouldFetch now st)"
  and useEffect_body_data: "globalData (fst (useEffect_body now st)) = globalData st"
  by (simp_all add: useEffect_body_def fetchGlobalData_start_def)

lemma step_flag:
  assumes "step e p = Some p'" and "flag_inv p"
  shows "isInitialLoad (cache p') = (isInitialLoad (cache p) \<and> \<not> is_settle e)"
    and "flag_inv p'"
proof -
  show "isInitialLoad (cache p') = (isInitialLoad (cache p) \<and> \<not> is_settle e)"
  proof (cases e)
    case (Evaluate now startTime)
    with assms show ?thesis
      by (auto simp: flag_inv_def useEffect_body_flag useEffect_body_data shouldFetch_def)
  next
    case (Settle i endTime result now)
    with assms show ?thesis
      by (auto simp: resume_flag split: if_splits)
  next
    case Refetch
    with assms show ?thesis
      by (auto simp: provider_value_def)
  next
    case ProgressComplete
    with assms show ?thesis
      by (auto simp: handleProgressComplete_def)
  qed
  show "flag_inv p'"
  proof (cases e)
    case (Evaluate now startTime)
    with assms show ?thesis
      by (auto simp: flag_inv_def useEffect_body_flag useEffect_body_data shouldFetch_def)
  next
    case (Settle i endTime result now)
    with assms show ?thesis
      by (auto simp: flag_inv_def resume_flag split: if_splits)
  next
    case Refetch
    with assms show ?thesis
      by (auto simp: flag_inv_def provider_value_def)
  next
    case ProgressComplete
    with assms show ?thesis
      by (auto simp: flag_inv_def handleProgressComplete_def)
  qed
qed

lemma run_flag:
  assumes "run es p = Some p'" and "flag_inv p"
  shows "isInitialLoad (cache p') = (isInitialLoad (cache p) \<and> \<not> list_ex is_settle es)
         \<and> flag_inv p'"
  using assms
proof (induction es arbitrary: p)
  case Nil
  then show ?case by simp
next
  case (Cons e es)
  from Cons.prems(1) obtain q where q: "step e p = Some q" and rest: "run es q = Some p'"
    by (auto split: option.splits)
  from step_flag [OF q Cons.prems(2)]
  have flag: "isInitialLoad (cache q) = (isInitialLoad (cache p) \<and> \<not> is_settle e)"
    and inv: "flag_inv q"
    by simp_all
  from Cons.IH [OF rest inv] flag show ?case
    by auto
qed

lemma sample_session_run:
  "run sample_session mount =
     Some \<lparr>cache = \<lparr>globalData = Some sample_aggregate, loading = False,
                     error = Some ''network unreachable'', lastFetch = 0,
                     isInitialLoad = False, showProgress = False\<rparr>,
           pending = []\<rparr>"
  by (simp add: sample_session_def mount_def initial_state_def useEffect_body_def
      shouldFetch_def CACHE_DURATION_def fetchGlobalData_start_def provider_value_def
      handleProgressComplete_def Let_def)

lemma sample_first_load_run:
  "run sample_first_load mount =
     Some \<lparr>cache = \<lparr>globalData = Some sample_aggregate, loading = False,
                     error = None, lastFetch = 1700000000050,
                     isInitialLoad = False, showProgress = True\<rparr>,
           pending = []\<rparr>"
  by (simp add: sample_first_load_def mount_def initial_state_def useEffect_body_def
      shouldFetch_def CACHE_DURATION_def fetchGlobalData_start_def Let_def)

text \<open>
  C2. The first-load flag is up at mount. After any session from mount it is up exactly
  when no fetch has settled in the session, so it comes down at the first settling,
  resolved or rejected; the settling of a fetch always leaves it down; and once down it
  stays down through whatever follows.
\<close>

theorem initial_load_once:
  assumes "run es mount = Some p"
  shows "isInitialLoad (cache mount)
         \<and> (isInitialLoad (cache p) \<longleftrightarrow> \<not> list_ex is_settle es)
         \<and> (\<forall>i endTime result now p'.
               step (Settle i endTime result now) p = Some p' \<longrightarrow> \<not> isInitialLoad (cache p'))
         \<and> (\<forall>es' p'. run es' p = Some p' \<longrightarrow> \<not> isInitialLoad (cache p)
               \<longrightarrow> \<not> isInitialLoad (cache p'))"
proof -
  have up: "isInitialLoad (cache mount)"
    by (simp add: mount_def initial_state_def)
  from run_flag [OF assms flag_inv_mount] up
  have here: "isInitialLoad (cache p) \<longleftrightarrow> \<not> list_ex is_settle es" and inv: "flag_inv p"
    by simp_all
  have settle: "\<not> isInitialLoad (cache p')"
    if "step (Settle i endTime result now) p = Some p'" for i endTime result now p'
    using step_flag(1) [OF that inv] by simp
  have later: "\<not> isInitialLoad (cache p')"
    if "run es' p = Some p'" and "\<not> isInitialLoad (cache p)" for es' p'
    using run_flag [OF that(1) inv] that(2) by simp
  from up here settle later show ?thesis
    by blast
qed

theorem initial_load_once_witness:
  "run [Evaluate 1700000000000 120] mount
     = Some \<lparr>cache = initial_state, pending = [120]\<rparr>
   \<and> isInitialLoad (cache \<lparr>cache = initial_state, pending = [120]\<rparr>)
   \<and> run sample_session mount \<noteq> None
   \<and> list_ex is_settle sample_session
   \<and> \<not> isInitialLoad (cache (the (run sample_session mount)))"
proof -
  have first: "run [Evaluate 1700000000000 120] mount
                = Some \<lparr>cache = initial_state, pending = [120]\<rparr>"
    by (simp add: mount_def initial_state_def useEffect_body_def shouldFetch_def
        fetchGlobalData_start_def)
  have whole: "run sample_session mount = Some (the (run sample_session mount))"
    by (simp add: sample_session_run)
  have settled: "list_ex is_settle sample_session"
    by (simp add: sample_session_def)
  have ran: "run sample_session mount \<noteq> None"
    by (simp add: sample_session_run)
  from initial_load_once [OF first]
  have up: "isInitialLoad (cache \<lparr>cache = initial_state, pending = [120]\<rparr>)"
    by simp
  from initial_load_once [OF whole] settled
  have down: "\<not> isInitialLoad (cache (the (run sample_session mount)))"
    by blast
  from first up ran settled down show ?thesis
    by blast
qed

text \<open>
  C10. In every state reached from mount with no fetch suspended, data being present
  means the first-load flag is down. So whenever the effect takes its cached branch in
  such a state, the flag is already down, and the branch's \<open>setIsInitialLoad(false)\<close>
  leaves it as it was.
\<close>

theorem cached_branch_keeps_flag:
  assumes "run es mount = Some p" and "pending p = []"
  shows "(globalData (cache p) \<noteq> None \<longrightarrow> \<not> isInitialLoad (cache p))
         \<and> (\<not> shouldFetch now (cache p) \<longrightarrow>
              \<not> isInitialLoad (cache p)
              \<and> isInitialLoad (fst (useEffect_body now (cache p))) = isInitialLoad (cache p))"
proof -
  from run_flag [OF assms(1) flag_inv_mount] have inv: "flag_inv p"
    by simp
  then show ?thesis
    by (auto simp: flag_inv_def useEffect_body_def shouldFetch_def)
qed

theorem cached_branch_keeps_flag_witness:
  "run sample_first_load mount \<noteq> None
   \<and> pending (the (run sample_first_load mount)) = []
   \<and> globalData (cache (the (run sample_first_load mount))) \<noteq> None
   \<and> \<not> isInitialLoad (cache (the (run sample_first_load mount)))
   \<and> \<not> shouldFetch 1700000000051 (cache (the (run sample_first_load mount)))
   \<and> isInitialLoad (fst (useEffect_body 1700000000051 (cache (the (run sample_first_load mount)))))
       = isInitialLoad (cache (the (run sample_first_load mount)))"
proof -
  have whole: "run sample_first_load mount = Some (the (run sample_first_load mount))"
    by (simp add: sample_first_load_run)
  have quiet: "pending (the (run sample_first_load mount)) = []"
    by (simp add: sample_first_load_run)
  have fresh: "\<not> shouldFetch 1700000000051 (cache (the (run sample_first_load mount)))"
    by (simp add: sample_first_load_run shouldFetch_def CACHE_DURATION_def)
  have present: "globalData (cache (the (run sample_first_load mount))) \<noteq> None"
    by (simp add: sample_first_load_run)
  have ran: "run sample_first_load mount \<noteq> None"
    by (simp add: sample_first_load_run)
  from cached_branch_keeps_flag [OF whole quiet, of 1700000000051] fresh
  have kept: "\<not> isInitialLoad (cache (the (run sample_first_load mount)))
              \<and> isInitialLoad (fst (useEffect_body 1700000000051
                    (cache (the (run sample_first_load mount)))))
                  = isInitialLoad (cache (the (run sample_first_load mount)))"
    by blast
  from ran quiet present fresh kept show ?thesis
    by blast
qed

end
